theory Spec2Isabelle
  imports Complex_Main
begin

section \<open>The planet propagator of \<open>cython_numba_planet.ipynb\<close>\<close>

text \<open>
  The notebook integrates the orbit of one planet around a star at the origin with the
  Euler method. The embedding follows its first, pure Python version (the class
  \<open>Planet\<close> and the functions \<open>single_step\<close> and \<open>propagate\<close>), run by a
  Python 3 kernel.

  The program is embedded twice. \<open>single_step_in\<close> and \<open>propagate_in\<close> take the
  arithmetic of the numbers as a parameter: every operation of the source is a call of that
  parameter and may raise, so what they say holds for the floats and integers of Python
  with their rounding, their overflow and their exceptions, and for the unchecked C
  arithmetic of the later variants of the notebook as well. \<open>single_step\<close> and
  \<open>propagate\<close> are the same program over exact real arithmetic, where the one
  exception is that of a zero divisor; they say what the program computes where Python's
  arithmetic is exact, and are what concrete inputs are evaluated with.
\<close>

subsection \<open>The planet\<close>

text \<open>The seven attributes of a \<open>Planet\<close> object, over the numbers \<open>'a\<close>.\<close>

record 'a planet =
  x :: 'a
  y :: 'a
  z :: 'a
  vx :: 'a
  vy :: 'a
  vz :: 'a
  m :: 'a

text \<open>The exceptions that calls and the arithmetic of Python numbers raise.\<close>

datatype py_error = ZeroDivisionError | OverflowError | ValueError | TypeError

text \<open>
  A routine that mutates the planet either returns normally, with the planet as it is then
  (\<open>Inr\<close>), or raises, and the caller sees the exception together with the planet as the
  routine left it (\<open>Inl\<close>).
\<close>

type_synonym 'a outcome = "(py_error \<times> 'a planet) + 'a planet"

text \<open>
  \<open>Planet.__init__(self)\<close> has no parameter besides \<open>self\<close>: the call \<open>Planet()\<close>
  sets the seven attributes to fixed values, and a call that passes any argument raises
  \<open>TypeError\<close> before the body runs. The list holds the positional arguments of the call.
\<close>

definition Planet :: "real list \<Rightarrow> py_error + real planet" where
  "Planet args =
     (if args = [] then
        Inr \<lparr>x = 1, y = 0, z = 0, vx = 0, vy = 0, vz = 1, m = 1\<rparr>
      else Inl TypeError)"

text \<open>The planet that \<open>Planet()\<close> constructs, which the notebook then propagates.\<close>

definition initial_planet :: "real planet" where
  "initial_planet = \<lparr>x = 1, y = 0, z = 0, vx = 0, vy = 0, vz = 1, m = 1\<rparr>"

subsection \<open>The arithmetic of the numbers\<close>

text \<open>
  The attributes and \<open>dt\<close> are whatever numbers the caller stores and passes: the
  constructor itself writes the float \<open>1.0\<close> and the integer \<open>0\<close>. The operations the
  source applies to them are the fields of an arithmetic: the conversion of the integer
  \<open>num_steps\<close> to a number, unary minus, \<open>+\<close>, \<open>*\<close>, \<open>/\<close>, \<open>**\<close> with the literal
  exponents 2 and 3, and \<open>math.sqrt\<close>. Each returns a number or raises.
\<close>

record 'a arith =
  py_int :: "int \<Rightarrow> 'a"
  py_neg :: "'a \<Rightarrow> py_error + 'a"
  py_add :: "'a \<Rightarrow> 'a \<Rightarrow> py_error + 'a"
  py_mul :: "'a \<Rightarrow> 'a \<Rightarrow> py_error + 'a"
  py_truediv :: "'a \<Rightarrow> 'a \<Rightarrow> py_error + 'a"
  py_pow :: "'a \<Rightarrow> nat \<Rightarrow> py_error + 'a"
  py_sqrt :: "'a \<Rightarrow> py_error + 'a"

text \<open>
  Evaluation stops at the first operation that raises: \<open>and_then\<close> inside an expression,
  \<open>eval_in\<close> for the expression of a statement, which hands the exception to the caller
  together with the planet as it is at that statement.
\<close>

definition and_then :: "py_error + 'a \<Rightarrow> ('a \<Rightarrow> py_error + 'b) \<Rightarrow> py_error + 'b" where
  "and_then v k = (case v of Inl e \<Rightarrow> Inl e | Inr a \<Rightarrow> k a)"

definition eval_in ::
  "'s \<Rightarrow> py_error + 'a \<Rightarrow> ('a \<Rightarrow> (py_error \<times> 's) + 'r) \<Rightarrow> (py_error \<times> 's) + 'r" where
  "eval_in planet v k = (case v of Inl e \<Rightarrow> Inl (e, planet) | Inr a \<Rightarrow> k a)"

subsection \<open>One Euler step\<close>

text \<open>
  \<^verbatim>\<open>
  def single_step(planet, dt):
      r = sqrt(planet.x**2 + planet.y**2 + planet.z**2)
      r3 = r**3
      Fx = -planet.x / r3
      Fy = -planet.y / r3
      Fz = -planet.z / r3
      planet.x += planet.vx * dt
      planet.y += planet.vy * dt
      planet.z += planet.vz * dt
      m = planet.m
      planet.vx += Fx * dt / m
      planet.vy += Fy * dt / m
      planet.vz += Fz * dt / m
  \<close>
  The statements run in this order on the one mutable object, so each \<open>let\<close> below
  rebinds the planet. Operands are evaluated from left to right: \<open>-planet.x / r3\<close> negates
  and then divides, \<open>planet.x += planet.vx * dt\<close> multiplies and then adds to the
  attribute, \<open>Fx * dt / m\<close> multiplies and then divides.
\<close>

definition distance :: "'a arith \<Rightarrow> 'a planet \<Rightarrow> py_error + 'a" where
  "distance A planet =
     and_then (py_pow A (x planet) 2) (\<lambda>xx.
     and_then (py_pow A (y planet) 2) (\<lambda>yy.
     and_then (py_add A xx yy) (\<lambda>xy.
     and_then (py_pow A (z planet) 2) (\<lambda>zz.
     and_then (py_add A xy zz) (\<lambda>xyz.
     py_sqrt A xyz)))))"

definition force :: "'a arith \<Rightarrow> 'a \<Rightarrow> 'a \<Rightarrow> py_error + 'a" where
  "force A c r3 = and_then (py_neg A c) (\<lambda>n. py_truediv A n r3)"

definition moved :: "'a arith \<Rightarrow> 'a \<Rightarrow> 'a \<Rightarrow> 'a \<Rightarrow> py_error + 'a" where
  "moved A c v dt = and_then (py_mul A v dt) (\<lambda>d. py_add A c d)"

definition pushed :: "'a arith \<Rightarrow> 'a \<Rightarrow> 'a \<Rightarrow> 'a \<Rightarrow> 'a \<Rightarrow> py_error + 'a" where
  "pushed A v F dt mass =
     and_then (py_mul A F dt) (\<lambda>Fdt.
     and_then (py_truediv A Fdt mass) (\<lambda>a.
     py_add A v a))"

definition single_step_in :: "'a arith \<Rightarrow> 'a planet \<Rightarrow> 'a \<Rightarrow> 'a outcome" where
  "single_step_in A planet dt =
     eval_in planet (distance A planet) (\<lambda>r.
     eval_in planet (py_pow A r 3) (\<lambda>r3.
     eval_in planet (force A (x planet) r3) (\<lambda>Fx.
     eval_in planet (force A (y planet) r3) (\<lambda>Fy.
     eval_in planet (force A (z planet) r3) (\<lambda>Fz.
     eval_in planet (moved A (x planet) (vx planet) dt) (\<lambda>x'.
     let planet = planet\<lparr>x := x'\<rparr> in
     eval_in planet (moved A (y planet) (vy planet) dt) (\<lambda>y'.
     let planet = planet\<lparr>y := y'\<rparr> in
     eval_in planet (moved A (z planet) (vz planet) dt) (\<lambda>z'.
     let planet = planet\<lparr>z := z'\<rparr>;
         m = m planet in
     eval_in planet (pushed A (vx planet) Fx dt m) (\<lambda>vx'.
     let planet = planet\<lparr>vx := vx'\<rparr> in
     eval_in planet (pushed A (vy planet) Fy dt m) (\<lambda>vy'.
     let planet = planet\<lparr>vy := vy'\<rparr> in
     eval_in planet (pushed A (vz planet) Fz dt m) (\<lambda>vz'.
     let planet = planet\<lparr>vz := vz'\<rparr> in
     Inr planet)))))))))))"

text \<open>
  The same statements over exact real arithmetic. The first division raises when \<open>r3\<close>
  is zero, before any attribute is written; the divisions by \<open>m\<close> raise when the mass is
  zero, after the position has been written.
\<close>

definition single_step :: "real planet \<Rightarrow> real \<Rightarrow> real outcome" where
  "single_step planet dt =
     (let r = sqrt ((x planet)\<^sup>2 + (y planet)\<^sup>2 + (z planet)\<^sup>2);
          r3 = r ^ 3
      in if r3 = 0 then Inl (ZeroDivisionError, planet)
         else
           let Fx = - x planet / r3;
               Fy = - y planet / r3;
               Fz = - z planet / r3;
               planet = planet\<lparr>x := x planet + vx planet * dt\<rparr>;
               planet = planet\<lparr>y := y planet + vy planet * dt\<rparr>;
               planet = planet\<lparr>z := z planet + vz planet * dt\<rparr>;
               m = m planet
           in if m = 0 then Inl (ZeroDivisionError, planet)
              else
                let planet = planet\<lparr>vx := vx planet + Fx * dt / m\<rparr>;
                    planet = planet\<lparr>vy := vy planet + Fy * dt / m\<rparr>;
                    planet = planet\<lparr>vz := vz planet + Fz * dt / m\<rparr>
                in Inr planet)"

subsection \<open>The driver\<close>

text \<open>
  \<^verbatim>\<open>
  def propagate(planet, time_span, num_steps):
      dt = time_span / num_steps
      for _ in range(num_steps):
          single_step(planet, dt)
  \<close>
  \<open>range(num_steps)\<close> needs an integer and is empty when it is zero or negative. The
  loop runs \<open>single_step\<close> once per element and an exception of a step ends it.
\<close>

definition range_len :: "int \<Rightarrow> nat" where
  "range_len n = (if n \<le> 0 then 0 else nat n)"

fun loop_in :: "'a arith \<Rightarrow> nat \<Rightarrow> 'a planet \<Rightarrow> 'a \<Rightarrow> 'a outcome" where
  "loop_in A 0 planet dt = Inr planet"
| "loop_in A (Suc k) planet dt =
     (case single_step_in A planet dt of
        Inl e \<Rightarrow> Inl e
      | Inr planet' \<Rightarrow> loop_in A k planet' dt)"

definition propagate_in :: "'a arith \<Rightarrow> 'a planet \<Rightarrow> 'a \<Rightarrow> int \<Rightarrow> 'a outcome" where
  "propagate_in A planet time_span num_steps =
     eval_in planet (py_truediv A time_span (py_int A num_steps)) (\<lambda>dt.
     loop_in A (range_len num_steps) planet dt)"

text \<open>The driver over exact real arithmetic.\<close>

fun loop :: "nat \<Rightarrow> real planet \<Rightarrow> real \<Rightarrow> real outcome" where
  "loop 0 planet dt = Inr planet"
| "loop (Suc k) planet dt =
     (case single_step planet dt of
        Inl e \<Rightarrow> Inl e
      | Inr planet' \<Rightarrow> loop k planet' dt)"

definition propagate :: "real planet \<Rightarrow> real \<Rightarrow> int \<Rightarrow> real outcome" where
  "propagate planet time_span num_steps =
     (if num_steps = 0 then Inl (ZeroDivisionError, planet)
      else
        let dt = time_span / of_int num_steps
        in loop (range_len num_steps) planet dt)"

text \<open>The planet a caller holds after a call, whether it returned or raised.\<close>

fun planet_after :: "'a outcome \<Rightarrow> 'a planet" where
  "planet_after (Inl (e, planet)) = planet"
| "planet_after (Inr planet) = planet"

fun raised :: "'a outcome \<Rightarrow> bool" where
  "raised (Inl e) = True"
| "raised (Inr planet) = False"

subsection \<open>Two arithmetics\<close>

text \<open>
  Exact real arithmetic, whose only exception is that of a zero divisor. With it the
  parametrised program is \<open>single_step\<close> and \<open>propagate\<close>.
\<close>

definition exact :: "real arith" where
  "exact =
     \<lparr>py_int = of_int,
      py_neg = (\<lambda>a. Inr (- a)),
      py_add = (\<lambda>a b. Inr (a + b)),
      py_mul = (\<lambda>a b. Inr (a * b)),
      py_truediv = (\<lambda>a b. if b = 0 then Inl ZeroDivisionError else Inr (a / b)),
      py_pow = (\<lambda>a n. Inr (a ^ n)),
      py_sqrt = (\<lambda>a. Inr (sqrt a))\<rparr>"

text \<open>
  Python's integers and floats with the exceptions Python raises and with unrounded
  values: an integer is converted to a float when the other operand is a float, which
  raises \<open>OverflowError\<close> when it would round to \<open>2 ^ 1024\<close> or beyond; so do a quotient
  of integers and a power of a float of that size; \<open>math.sqrt\<close> of a negative number
  raises \<open>ValueError\<close>. Infinities and NaN are not represented, and a float result
  is the exact value where Python rounds it.
\<close>

datatype pynum = PyInt int | PyFloat real

definition float_limit :: real where
  "float_limit = 2 ^ 1024 - 2 ^ 970"

fun as_float :: "pynum \<Rightarrow> py_error + real" where
  "as_float (PyFloat r) = Inr r"
| "as_float (PyInt n) =
     (if float_limit \<le> \<bar>of_int n\<bar> then Inl OverflowError else Inr (of_int n))"

fun num_neg :: "pynum \<Rightarrow> py_error + pynum" where
  "num_neg (PyInt a) = Inr (PyInt (- a))"
| "num_neg (PyFloat a) = Inr (PyFloat (- a))"

fun num_add :: "pynum \<Rightarrow> pynum \<Rightarrow> py_error + pynum" where
  "num_add (PyInt a) (PyInt b) = Inr (PyInt (a + b))"
| "num_add u v = and_then (as_float u) (\<lambda>a. and_then (as_float v) (\<lambda>b. Inr (PyFloat (a + b))))"

fun num_mul :: "pynum \<Rightarrow> pynum \<Rightarrow> py_error + pynum" where
  "num_mul (PyInt a) (PyInt b) = Inr (PyInt (a * b))"
| "num_mul u v = and_then (as_float u) (\<lambda>a. and_then (as_float v) (\<lambda>b. Inr (PyFloat (a * b))))"

fun num_truediv :: "pynum \<Rightarrow> pynum \<Rightarrow> py_error + pynum" where
  "num_truediv (PyInt a) (PyInt b) =
     (if b = 0 then Inl ZeroDivisionError
      else if float_limit \<le> \<bar>of_int a / of_int b\<bar> then Inl OverflowError
      else Inr (PyFloat (of_int a / of_int b)))"
| "num_truediv u v =
     and_then (as_float u) (\<lambda>a. and_then (as_float v) (\<lambda>b.
       if b = 0 then Inl ZeroDivisionError else Inr (PyFloat (a / b))))"

fun num_pow :: "pynum \<Rightarrow> nat \<Rightarrow> py_error + pynum" where
  "num_pow (PyInt a) n = Inr (PyInt (a ^ n))"
| "num_pow (PyFloat a) n =
     (if float_limit \<le> \<bar>a ^ n\<bar> then Inl OverflowError else Inr (PyFloat (a ^ n)))"

definition num_sqrt :: "pynum \<Rightarrow> py_error + pynum" where
  "num_sqrt u =
     and_then (as_float u) (\<lambda>a. if a < 0 then Inl ValueError else Inr (PyFloat (sqrt a)))"

definition py_numbers :: "pynum arith" where
  "py_numbers =
     \<lparr>py_int = PyInt, py_neg = num_neg, py_add = num_add, py_mul = num_mul,
      py_truediv = num_truediv, py_pow = num_pow, py_sqrt = num_sqrt\<rparr>"

text \<open>The planet as \<open>Planet()\<close> writes it, with the floats and integers of the source.\<close>

definition initial_numbers :: "pynum planet" where
  "initial_numbers =
     \<lparr>x = PyFloat 1, y = PyInt 0, z = PyInt 0, vx = PyInt 0, vy = PyInt 0, vz = PyFloat 1,
      m = PyFloat 1\<rparr>"

subsection \<open>The reference notions the properties are stated with\<close>

text \<open>
  The explicit Euler update as a function of the planet on entry alone: the distance and
  the force are computed from the position on entry, each new coordinate from the old
  coordinate and the old velocity, each new velocity from the old velocity, the force and
  the mass, and only then is the new planet put together. The operations are those of
  the step, in its order.
\<close>

definition explicit_euler_in :: "'a arith \<Rightarrow> 'a planet \<Rightarrow> 'a \<Rightarrow> py_error + 'a planet" where
  "explicit_euler_in A p dt =
     and_then (distance A p) (\<lambda>r.
     and_then (py_pow A r 3) (\<lambda>r3.
     and_then (force A (x p) r3) (\<lambda>Fx.
     and_then (force A (y p) r3) (\<lambda>Fy.
     and_then (force A (z p) r3) (\<lambda>Fz.
     and_then (moved A (x p) (vx p) dt) (\<lambda>x'.
     and_then (moved A (y p) (vy p) dt) (\<lambda>y'.
     and_then (moved A (z p) (vz p) dt) (\<lambda>z'.
     and_then (pushed A (vx p) Fx dt (m p)) (\<lambda>vx'.
     and_then (pushed A (vy p) Fy dt (m p)) (\<lambda>vy'.
     and_then (pushed A (vz p) Fz dt (m p)) (\<lambda>vz'.
     Inr \<lparr>x = x', y = y', z = z', vx = vx', vy = vy', vz = vz', m = m p\<rparr>)))))))))))"

text \<open>
  The same update with the formulas of the specification, over exact reals:
  \<open>r\<^sup>3 = r * r * r\<close>, \<open>F = - position / r\<^sup>3\<close>, and the velocity gains
  \<open>(F / mass) * dt\<close>.
\<close>

definition explicit_euler :: "real planet \<Rightarrow> real \<Rightarrow> real planet" where
  "explicit_euler p dt =
     (let r = sqrt ((x p)\<^sup>2 + (y p)\<^sup>2 + (z p)\<^sup>2);
          r3 = r * r * r;
          Fx = - x p / r3;
          Fy = - y p / r3;
          Fz = - z p / r3
      in \<lparr>x = x p + vx p * dt,
          y = y p + vy p * dt,
          z = z p + vz p * dt,
          vx = vx p + (Fx / m p) * dt,
          vy = vy p + (Fy / m p) * dt,
          vz = vz p + (Fz / m p) * dt,
          m = m p\<rparr>)"

text \<open>
  Calling \<open>single_step\<close> directly \<open>n\<close> times in a row on the same planet: each call
  works on what the one before left, and an exception ends the sequence.
\<close>

definition then_single_step :: "real \<Rightarrow> real outcome \<Rightarrow> real outcome" where
  "then_single_step dt out =
     (case out of Inl e \<Rightarrow> Inl e | Inr planet \<Rightarrow> single_step planet dt)"

definition single_step_times :: "nat \<Rightarrow> real planet \<Rightarrow> real \<Rightarrow> real outcome" where
  "single_step_times n planet dt = (then_single_step dt ^^ n) (Inr planet)"

text \<open>The distance of the planet from the origin.\<close>

definition radius :: "real planet \<Rightarrow> real" where
  "radius p = sqrt ((x p)\<^sup>2 + (y p)\<^sup>2 + (z p)\<^sup>2)"

text \<open>The distance from the origin after \<open>k\<close> iterations of the step.\<close>

definition radius_after :: "nat \<Rightarrow> real planet \<Rightarrow> real \<Rightarrow> real" where
  "radius_after k planet dt = radius (planet_after (loop k planet dt))"

text \<open>
  Radial free fall: the planet at rest at position (1, 0, 0). A planet that is on the
  \<open>x\<close> axis and moves along it stays there.
\<close>

definition free_fall :: "real \<Rightarrow> real planet" where
  "free_fall mass = \<lparr>x = 1, y = 0, z = 0, vx = 0, vy = 0, vz = 0, m = mass\<rparr>"

definition on_axis :: "real planet \<Rightarrow> bool" where
  "on_axis p \<longleftrightarrow> y p = 0 \<and> z p = 0 \<and> vy p = 0 \<and> vz p = 0"




text \<open>
  An arithmetic that never raises, as C arithmetic under \<open>cdivision(True)\<close> in the later
  variants of the notebook; and an arithmetic that is checked at zero, as Python's is:
  squares, cubes, sums, negations and square roots of zeros are zeros, and a zero divided
  by a zero raises \<open>ZeroDivisionError\<close>.
\<close>

definition never_raises :: "'a arith \<Rightarrow> bool" where
  "never_raises A \<longleftrightarrow>
     (\<forall>a e. py_neg A a \<noteq> Inl e) \<and>
     (\<forall>a b e. py_add A a b \<noteq> Inl e) \<and>
     (\<forall>a b e. py_mul A a b \<noteq> Inl e) \<and>
     (\<forall>a b e. py_truediv A a b \<noteq> Inl e) \<and>
     (\<forall>a n e. py_pow A a n \<noteq> Inl e) \<and>
     (\<forall>a e. py_sqrt A a \<noteq> Inl e)"

definition checked_at_zero :: "'a arith \<Rightarrow> ('a \<Rightarrow> bool) \<Rightarrow> bool" where
  "checked_at_zero A zero \<longleftrightarrow>
     (\<forall>a. zero a \<longrightarrow>
        (\<exists>b. py_pow A a 2 = Inr b \<and> zero b) \<and>
        (\<exists>b. py_pow A a 3 = Inr b \<and> zero b) \<and>
        (\<exists>b. py_sqrt A a = Inr b \<and> zero b) \<and>
        (\<exists>b. py_neg A a = Inr b \<and> zero b)) \<and>
     (\<forall>a b. zero a \<and> zero b \<longrightarrow>
        (\<exists>c. py_add A a b = Inr c \<and> zero c) \<and>
        py_truediv A a b = Inl ZeroDivisionError)"

section \<open>Properties\<close>

subsection \<open>The program over exact reals is the parametrised program\<close>

lemma single_step_in_exact: "single_step_in exact p dt = single_step p dt"
  by (simp add: single_step_in_def single_step_def eval_in_def and_then_def distance_def
      force_def moved_def pushed_def exact_def Let_def)

lemma loop_in_exact: "loop_in exact k p dt = loop k p dt"
  by (induction k arbitrary: p) (simp_all add: single_step_in_exact split: sum.splits)

lemma propagate_in_exact: "propagate_in exact p T N = propagate p T N"
proof -
  have "py_truediv exact T (py_int exact N)
          = (if N = 0 then Inl ZeroDivisionError else Inr (T / of_int N))"
    by (simp add: exact_def)
  then show ?thesis
    by (simp add: propagate_in_def propagate_def eval_in_def Let_def loop_in_exact)
qed

subsection \<open>The step is the explicit Euler update\<close>

text \<open>
  Claim C1, as the code has it. For every planet, every \<open>dt\<close> and every arithmetic,
  \<open>single_step\<close> returns normally exactly when no operation of the explicit Euler update
  raises, and then the planet it leaves is exactly that update of the values on entry:
  \<open>r\<close> and the force from the position on entry, the position plus the velocity on
  entry times \<open>dt\<close>, and the velocity plus \<open>F * dt / mass\<close> with \<open>F\<close> the force at the
  old position, not at the position just written.
\<close>

theorem single_step_in_explicit_euler:
  "single_step_in A p dt = Inr p' \<longleftrightarrow> explicit_euler_in A p dt = Inr p'"
  by (cases p) (auto simp: single_step_in_def explicit_euler_in_def eval_in_def and_then_def Let_def
      split: sum.splits)

text \<open>
  At the initial planet and \<open>dt = 0.5\<close>: the position moves along \<open>z\<close> with the old
  velocity, and the velocity changes along \<open>x\<close> only, the direction of the force at the
  old position (1, 0, 0).
\<close>

theorem single_step_in_explicit_euler_witness:
  "single_step_in py_numbers initial_numbers (PyFloat (1 / 2))
     = Inr \<lparr>x = PyFloat 1, y = PyFloat 0, z = PyFloat (1 / 2),
            vx = PyFloat (- (1 / 2)), vy = PyFloat 0, vz = PyFloat 1, m = PyFloat 1\<rparr> \<and>
   explicit_euler_in py_numbers initial_numbers (PyFloat (1 / 2))
     = Inr \<lparr>x = PyFloat 1, y = PyFloat 0, z = PyFloat (1 / 2),
            vx = PyFloat (- (1 / 2)), vy = PyFloat 0, vz = PyFloat 1, m = PyFloat 1\<rparr>"
proof -
  have "explicit_euler_in py_numbers initial_numbers (PyFloat (1 / 2))
     = Inr \<lparr>x = PyFloat 1, y = PyFloat 0, z = PyFloat (1 / 2),
            vx = PyFloat (- (1 / 2)), vy = PyFloat 0, vz = PyFloat 1, m = PyFloat 1\<rparr>"
    by (simp add: explicit_euler_in_def distance_def force_def moved_def pushed_def
        and_then_def py_numbers_def initial_numbers_def num_sqrt_def float_limit_def)
  then show ?thesis
    using single_step_in_explicit_euler [of py_numbers initial_numbers "PyFloat (1 / 2)"]
    by simp
qed

text \<open>
  With mass 0 the step is not that update: the position has been written when the
  division by the mass raises, and the velocity has not.
\<close>

theorem single_step_zero_mass_counterexample:
  "single_step \<lparr>x = 1, y = 0, z = 0, vx = 0, vy = 0, vz = 1, m = 0\<rparr> 1
     = Inl (ZeroDivisionError, \<lparr>x = 1, y = 0, z = 1, vx = 0, vy = 0, vz = 1, m = 0\<rparr>)"
  by (simp add: single_step_def)

text \<open>
  In exact arithmetic, away from the origin and with a mass that is not zero, the step
  returns the update with the formulas of the specification.
\<close>

lemma r3_zero_iff:
  "(sqrt ((a::real)\<^sup>2 + b\<^sup>2 + c\<^sup>2)) ^ 3 = 0 \<longleftrightarrow> a = 0 \<and> b = 0 \<and> c = 0"
proof -
  have "a\<^sup>2 + b\<^sup>2 + c\<^sup>2 = 0 \<longleftrightarrow> a\<^sup>2 + b\<^sup>2 = 0 \<and> c\<^sup>2 = 0"
    by (rule add_nonneg_eq_0_iff) simp_all
  then have "a\<^sup>2 + b\<^sup>2 + c\<^sup>2 = 0 \<longleftrightarrow> a = 0 \<and> b = 0 \<and> c = 0"
    by simp
  then show ?thesis by simp
qed

lemma exact_single_step_explicit_euler:
  assumes "\<not> (x p = 0 \<and> y p = 0 \<and> z p = 0)" and "m p \<noteq> 0"
  shows "single_step p dt = Inr (explicit_euler p dt)"
proof -
  have nz: "(sqrt ((x p)\<^sup>2 + (y p)\<^sup>2 + (z p)\<^sup>2)) ^ 3 \<noteq> 0"
    using assms(1) r3_zero_iff [of "x p" "y p" "z p"] by blast
  show ?thesis
    using nz assms(2)
    by (simp add: single_step_def explicit_euler_def Let_def power3_eq_cube del: power_eq_0_iff)
qed

subsection \<open>The driver and direct calls\<close>

lemma then_single_step_Inl: "(then_single_step dt ^^ n) (Inl e) = Inl e"
  by (induction n) (simp_all add: then_single_step_def)

lemma loop_single_step_times: "loop n p dt = single_step_times n p dt"
proof (induction n arbitrary: p)
  case 0
  show ?case by (simp add: single_step_times_def)
next
  case (Suc n)
  have "single_step_times (Suc n) p dt
          = (then_single_step dt ^^ n) (then_single_step dt (Inr p))"
    unfolding single_step_times_def by (simp only: funpow_Suc_right comp_apply)
  also have "\<dots> = (then_single_step dt ^^ n) (single_step p dt)"
    by (simp add: then_single_step_def)
  also have "\<dots> = loop (Suc n) p dt"
  proof (cases "single_step p dt")
    case (Inl e)
    then show ?thesis by (simp add: then_single_step_Inl)
  next
    case (Inr p')
    then show ?thesis using Suc.IH [of p'] by (simp add: single_step_times_def)
  qed
  finally show ?case by simp
qed

text \<open>
  Claim C2. For every planet, every time span \<open>T\<close> and every positive integer \<open>N\<close>,
  \<open>propagate\<close> computes \<open>dt = T / N\<close> once and runs \<open>single_step\<close> exactly \<open>N\<close>
  times in sequence with that \<open>dt\<close>: its outcome is the outcome of calling
  \<open>single_step\<close> \<open>N\<close> times directly with \<open>dt = T / N\<close>.
\<close>

theorem propagate_single_step_times:
  "0 < num_steps \<Longrightarrow>
     propagate planet time_span num_steps
       = single_step_times (nat num_steps) planet (time_span / of_int num_steps)"
  by (simp add: propagate_def range_len_def Let_def loop_single_step_times)

theorem propagate_single_step_times_witness:
  "(0::int) < 2 \<and>
   propagate initial_planet 1 2 = single_step_times 2 initial_planet (1 / 2)"
  using propagate_single_step_times [of 2 initial_planet 1]
  by simp

subsection \<open>The step count zero, and negative step counts\<close>

text \<open>
  Claim C3, as the code has it. \<open>propagate\<close> checks nothing itself. With
  \<open>num_steps = 0\<close> the division that computes \<open>dt\<close> raises \<open>ZeroDivisionError\<close>, as
  Python's division by zero does, and \<open>propagate\<close> fails with it before any step runs,
  the planet untouched. A negative \<open>num_steps\<close> is not rejected: the call fails only if
  that division itself raises, and otherwise returns normally; in both cases no step
  runs.
\<close>

theorem propagate_in_zero_or_negative:
  "(py_truediv A time_span (py_int A 0) = Inl ZeroDivisionError \<longrightarrow>
      propagate_in A planet time_span 0 = Inl (ZeroDivisionError, planet)) \<and>
   (num_steps < 0 \<longrightarrow>
      propagate_in A planet time_span num_steps =
        (case py_truediv A time_span (py_int A num_steps) of
           Inl e \<Rightarrow> Inl (e, planet)
         | Inr dt \<Rightarrow> Inr planet))"
  by (simp add: propagate_in_def eval_in_def range_len_def split: sum.splits)

theorem propagate_in_zero_or_negative_witness:
  "py_truediv py_numbers (PyFloat 1) (py_int py_numbers 0) = Inl ZeroDivisionError \<and>
   propagate_in py_numbers initial_numbers (PyFloat 1) 0
     = Inl (ZeroDivisionError, initial_numbers) \<and>
   (- 5 :: int) < 0 \<and>
   propagate_in py_numbers initial_numbers (PyFloat 1) (- 5) = Inr initial_numbers"
  using propagate_in_zero_or_negative [of py_numbers "PyFloat 1" initial_numbers "- 5"]
  by (simp add: py_numbers_def float_limit_def and_then_def)

text \<open>With \<open>num_steps = -5\<close> no error is raised.\<close>

theorem propagate_minus_five_counterexample:
  "\<not> raised (propagate initial_planet 1 (- 5))"
  by (simp add: propagate_def range_len_def)




subsection \<open>The constructor\<close>

text \<open>
  Claim C4, as the code has it. The constructor takes no mass and validates nothing:
  construction succeeds only for the call without arguments, and the planet it yields has
  the strictly positive mass 1; every call that passes arguments fails with \<open>TypeError\<close>,
  whatever mass is among them.
\<close>

theorem Planet_mass_positive:
  "(Planet args = Inr p \<longrightarrow> args = [] \<and> m p = 1 \<and> 0 < m p) \<and>
   (args \<noteq> [] \<longrightarrow> Planet args = Inl TypeError)"
  by (auto simp: Planet_def split: if_splits)

theorem Planet_mass_positive_witness:
  "Planet [] = Inr initial_planet \<and> m initial_planet = 1 \<and> 0 < m initial_planet \<and>
   [1, 0, 0, 0, 0, 1, 0 :: real] \<noteq> [] \<and> Planet [1, 0, 0, 0, 0, 1, 0] = Inl TypeError"
  using Planet_mass_positive [of "[]" initial_planet]
    Planet_mass_positive [of "[1, 0, 0, 0, 0, 1, 0]" initial_planet]
  by (simp add: Planet_def initial_planet_def)

text \<open>
  A call that passes seven values fails in the same way when the mass among them is 0, -1
  or 2: the failure is that of the argument count, not a check of the mass.
\<close>

theorem Planet_mass_argument_counterexample:
  "Planet [1, 0, 0, 0, 0, 1, 0] = Inl TypeError \<and>
   Planet [1, 0, 0, 0, 0, 1, - 1] = Inl TypeError \<and>
   Planet [1, 0, 0, 0, 0, 1, 2] = Inl TypeError"
  by (simp add: Planet_def)

text \<open>
  Claim C5, as the code has it. The constructor accepts no initial values: construction
  succeeds exactly for the call without arguments, and then yields the initial planet:
  position (1, 0, 0), velocity (0, 0, 1) and mass 1.
\<close>

theorem Planet_no_arguments:
  "Planet args = Inr p \<longleftrightarrow> args = [] \<and> p = initial_planet"
  by (auto simp: Planet_def initial_planet_def)

theorem Planet_no_arguments_witness:
  "Planet [] = Inr initial_planet"
  using Planet_no_arguments [of "[]" initial_planet]
  by simp

text \<open>A call with seven chosen values does not construct a planet.\<close>

theorem Planet_explicit_values_counterexample:
  "Planet [2, 0, 0, 0, 3, 0, 5] = Inl TypeError"
  by (simp add: Planet_def)

subsection \<open>The step at \<open>dt = 0\<close>\<close>

text \<open>
  Claim C6. For the planet at position (1, 0, 0) with velocity (0, 0, 1) and mass 1, one
  call of \<open>single_step\<close> with \<open>dt = 0\<close> returns normally and leaves the position and the
  velocity as they were.
\<close>

theorem single_step_dt_zero_identity:
  "single_step \<lparr>x = 1, y = 0, z = 0, vx = 0, vy = 0, vz = 1, m = 1\<rparr> 0
     = Inr \<lparr>x = 1, y = 0, z = 0, vx = 0, vy = 0, vz = 1, m = 1\<rparr>"
  by (simp add: single_step_def)

subsection \<open>When the step raises\<close>

lemma distance_at_zero:
  assumes "checked_at_zero A zero" and "zero (x p)" and "zero (y p)" and "zero (z p)"
  shows "\<exists>r. distance A p = Inr r \<and> zero r"
proof -
  from assms obtain xx where xx: "py_pow A (x p) 2 = Inr xx" "zero xx"
    unfolding checked_at_zero_def by blast
  from assms obtain yy where yy: "py_pow A (y p) 2 = Inr yy" "zero yy"
    unfolding checked_at_zero_def by blast
  from assms obtain zz where zz: "py_pow A (z p) 2 = Inr zz" "zero zz"
    unfolding checked_at_zero_def by blast
  from assms(1) xx(2) yy(2) obtain xy where xy: "py_add A xx yy = Inr xy" "zero xy"
    unfolding checked_at_zero_def by blast
  from assms(1) xy(2) zz(2) obtain xyz where xyz: "py_add A xy zz = Inr xyz" "zero xyz"
    unfolding checked_at_zero_def by blast
  from assms(1) xyz(2) obtain r where r: "py_sqrt A xyz = Inr r" "zero r"
    unfolding checked_at_zero_def by blast
  show ?thesis
    using xx yy zz xy xyz r by (simp add: distance_def and_then_def)
qed

lemma single_step_in_at_zero:
  assumes "checked_at_zero A zero" and "zero (x p)" and "zero (y p)" and "zero (z p)"
  shows "single_step_in A p dt = Inl (ZeroDivisionError, p)"
proof -
  from distance_at_zero [OF assms] obtain r where r: "distance A p = Inr r" "zero r"
    by blast
  from assms(1) r(2) obtain r3 where r3: "py_pow A r 3 = Inr r3" "zero r3"
    unfolding checked_at_zero_def by blast
  from assms(1,2) obtain n where n: "py_neg A (x p) = Inr n" "zero n"
    unfolding checked_at_zero_def by blast
  from assms(1) n(2) r3(2) have "py_truediv A n r3 = Inl ZeroDivisionError"
    unfolding checked_at_zero_def by blast
  then have "force A (x p) r3 = Inl ZeroDivisionError"
    using n by (simp add: force_def and_then_def)
  then show ?thesis
    using r r3 by (simp add: single_step_in_def eval_in_def)
qed

lemma single_step_in_never_raises:
  assumes "never_raises A"
  shows "\<not> raised (single_step_in A p dt)"
  using assms
  by (auto simp: never_raises_def single_step_in_def eval_in_def and_then_def distance_def
      force_def moved_def pushed_def Let_def split: sum.splits)

text \<open>
  Claim C7, as the code has it. \<open>single_step\<close> has no check and no \<open>raise\<close> of its own:
  for any planet and any \<open>dt\<close>, positive or negative, it raises only if the arithmetic
  does. With an arithmetic that never raises, as the C arithmetic of the
  \<open>cdivision(True)\<close> variants, it never raises, and a zero distance gives whatever that
  division gives. With an arithmetic checked at zero, as that of the Python definition, a
  position exactly at the origin (\<open>r = 0\<close>) makes the division by \<open>r3\<close> raise
  \<open>ZeroDivisionError\<close>, and the planet is left as it was.
\<close>

theorem single_step_in_raises:
  "(never_raises A \<longrightarrow> \<not> raised (single_step_in A p dt)) \<and>
   (checked_at_zero A zero \<and> zero (x p) \<and> zero (y p) \<and> zero (z p) \<longrightarrow>
      single_step_in A p dt = Inl (ZeroDivisionError, p))"
  using single_step_in_never_raises [of A p dt] single_step_in_at_zero [of A zero p dt]
  by blast

theorem single_step_in_raises_witness:
  "never_raises (exact\<lparr>py_truediv := \<lambda>a b. Inr (a / b)\<rparr>) \<and>
   \<not> raised (single_step_in (exact\<lparr>py_truediv := \<lambda>a b. Inr (a / b)\<rparr>)
               \<lparr>x = 0, y = 0, z = 0, vx = 0, vy = 0, vz = 1, m = 1\<rparr> (- 1)) \<and>
   checked_at_zero exact (\<lambda>a. a = 0) \<and>
   single_step_in exact \<lparr>x = 0, y = 0, z = 0, vx = 0, vy = 0, vz = 1, m = 1\<rparr> (- 1)
     = Inl (ZeroDivisionError, \<lparr>x = 0, y = 0, z = 0, vx = 0, vy = 0, vz = 1, m = 1\<rparr>)"
proof -
  have h1: "never_raises (exact\<lparr>py_truediv := \<lambda>a b. Inr (a / b)\<rparr>)"
    by (simp add: never_raises_def exact_def)
  have h2: "checked_at_zero exact (\<lambda>a. a = 0)"
    by (simp add: checked_at_zero_def exact_def)
  show ?thesis
    using h1 h2
      single_step_in_raises [of "exact\<lparr>py_truediv := \<lambda>a b. Inr (a / b)\<rparr>"
        "\<lparr>x = 0, y = 0, z = 0, vx = 0, vy = 0, vz = 1, m = 1\<rparr>" "- 1"
        "\<lambda>a. a = 0"]
      single_step_in_raises [of exact
        "\<lparr>x = 0, y = 0, z = 0, vx = 0, vy = 0, vz = 1, m = 1\<rparr>" "- 1"
        "\<lambda>a. a = 0"]
    by simp
qed

text \<open>At the origin, with velocity (0, 0, 1), mass 1 and \<open>dt = 1\<close>, the step raises.\<close>

theorem single_step_origin_counterexample:
  "single_step \<lparr>x = 0, y = 0, z = 0, vx = 0, vy = 0, vz = 1, m = 1\<rparr> 1
     = Inl (ZeroDivisionError, \<lparr>x = 0, y = 0, z = 0, vx = 0, vy = 0, vz = 1, m = 1\<rparr>)"
  by (simp add: single_step_def)

subsection \<open>Radial free fall\<close>






text \<open>
  On the positive \<open>x\<close> axis \<open>r\<close> is \<open>x\<close>, the force is \<open>- 1 / x\<^sup>2\<close> along the axis,
  and the step keeps the planet on the axis.
\<close>

lemma axis_step:
  assumes "on_axis p" and "0 < x p" and "0 < m p"
  shows "single_step p dt =
           Inr \<lparr>x = x p + vx p * dt, y = 0, z = 0,
                vx = vx p - dt / (m p * (x p)\<^sup>2), vy = 0, vz = 0, m = m p\<rparr>"
proof -
  have r: "sqrt ((x p)\<^sup>2 + (y p)\<^sup>2 + (z p)\<^sup>2) = x p"
    using assms by (simp add: on_axis_def)
  have F: "- x p / (x p) ^ 3 * dt / m p = - (dt / (m p * (x p)\<^sup>2))"
    using assms by (simp add: power3_eq_cube power2_eq_square)
  show ?thesis
    unfolding single_step_def Let_def r
    using assms F by (simp add: on_axis_def)
qed

text \<open>
  In exact arithmetic, with positive mass and \<open>10 * dt\<^sup>2 < mass\<close>, the first four steps
  raise nothing and each of the three steps after the first makes the distance strictly
  smaller. Rounding can undo this: where \<open>1 - dt\<^sup>2 / mass\<close> rounds to 1, the floats
  of Python leave the distance at 1.
\<close>

lemma exact_free_fall_radius:
  assumes "0 < mass" and "0 < dt" and "10 * dt\<^sup>2 < mass"
  shows "\<not> raised (loop 4 (free_fall mass) dt) \<and>
         radius_after 1 (free_fall mass) dt = radius_after 0 (free_fall mass) dt \<and>
         radius_after 2 (free_fall mass) dt < radius_after 1 (free_fall mass) dt \<and>
         radius_after 3 (free_fall mass) dt < radius_after 2 (free_fall mass) dt \<and>
         radius_after 4 (free_fall mass) dt < radius_after 3 (free_fall mass) dt"
proof -
  define a where "a = dt\<^sup>2 / mass"
  have a_pos: "0 < a" and a_small: "a < 1 / 10"
    using assms by (simp_all add: a_def field_simps)
  define c where "c = a / (1 - a)\<^sup>2"
  have sq: "81 / 100 < (1 - a)\<^sup>2"
  proof -
    have "9 / 10 < 1 - a" using a_small by simp
    then have "(9 / 10) * (9 / 10) < (1 - a) * (1 - a)"
      by (intro mult_strict_mono) simp_all
    then show ?thesis by (simp add: power2_eq_square)
  qed
  have sq_pos: "0 < (1 - a)\<^sup>2" using sq by linarith
  have c_pos: "0 < c" unfolding c_def using a_pos sq_pos by (rule divide_pos_pos)
  have c_small: "c < 1 / 5"
  proof -
    have "a < (1 - a)\<^sup>2 * (1 / 5)" using a_small sq by linarith
    then show ?thesis unfolding c_def using sq_pos by (simp add: pos_divide_less_eq)
  qed
  define u where "u = dt / mass"
  define w where "w = dt / (mass * (1 - a)\<^sup>2)"
  have ua: "a = u * dt" by (simp add: a_def u_def power2_eq_square)
  have wc: "c = w * dt" by (simp add: c_def w_def a_def power2_eq_square)
  define p0 where "p0 = free_fall mass"
  define p1 where "p1 = \<lparr>x = 1, y = 0, z = 0, vx = - u, vy = 0, vz = 0, m = mass\<rparr>"
  define p2 where
    "p2 = \<lparr>x = 1 - a, y = 0, z = 0, vx = - (2 * u), vy = 0, vz = 0, m = mass\<rparr>"
  define p3 where
    "p3 = \<lparr>x = 1 - 3 * a, y = 0, z = 0, vx = - (2 * u) - w, vy = 0, vz = 0, m = mass\<rparr>"
  define p4 where
    "p4 = \<lparr>x = 1 - 5 * a - c, y = 0, z = 0,
            vx = - (2 * u) - w - dt / (mass * (1 - 3 * a)\<^sup>2), vy = 0, vz = 0, m = mass\<rparr>"
  have s1: "single_step p0 dt = Inr p1"
  proof -
    have "on_axis p0" "0 < x p0" "0 < m p0"
      using assms(1) by (simp_all add: p0_def free_fall_def on_axis_def)
    note axis_step [OF this, of dt]
    moreover have "x p0 + vx p0 * dt = 1"
      by (simp add: p0_def free_fall_def)
    moreover have "vx p0 - dt / (m p0 * (x p0)\<^sup>2) = - u"
      by (simp add: p0_def free_fall_def u_def)
    moreover have "m p0 = mass" by (simp add: p0_def free_fall_def)
    ultimately show ?thesis by (simp add: p1_def)
  qed
  have s2: "single_step p1 dt = Inr p2"
  proof -
    have "on_axis p1" "0 < x p1" "0 < m p1"
      using assms(1) by (simp_all add: p1_def on_axis_def)
    note axis_step [OF this, of dt]
    moreover have "x p1 + vx p1 * dt = 1 - a"
      by (simp add: p1_def ua)
    moreover have "vx p1 - dt / (m p1 * (x p1)\<^sup>2) = - (2 * u)"
      by (simp add: p1_def u_def)
    moreover have "m p1 = mass" by (simp add: p1_def)
    ultimately show ?thesis by (simp add: p2_def)
  qed
  have s3: "single_step p2 dt = Inr p3"
  proof -
    have "on_axis p2" "0 < x p2" "0 < m p2"
      using assms(1) a_small by (simp_all add: p2_def on_axis_def)
    note axis_step [OF this, of dt]
    moreover have "x p2 + vx p2 * dt = 1 - 3 * a"
      by (simp add: p2_def ua algebra_simps)
    moreover have "vx p2 - dt / (m p2 * (x p2)\<^sup>2) = - (2 * u) - w"
      by (simp add: p2_def w_def)
    moreover have "m p2 = mass" by (simp add: p2_def)
    ultimately show ?thesis by (simp add: p3_def)
  qed
  have s4: "single_step p3 dt = Inr p4"
  proof -
    have "on_axis p3" "0 < x p3" "0 < m p3"
      using assms(1) a_small by (simp_all add: p3_def on_axis_def)
    note axis_step [OF this, of dt]
    moreover have "x p3 + vx p3 * dt = 1 - 5 * a - c"
      by (simp add: p3_def ua wc algebra_simps)
    moreover have "vx p3 - dt / (m p3 * (x p3)\<^sup>2)
                     = - (2 * u) - w - dt / (mass * (1 - 3 * a)\<^sup>2)"
      by (simp add: p3_def)
    moreover have "m p3 = mass" by (simp add: p3_def)
    ultimately show ?thesis by (simp add: p4_def)
  qed
  have l0: "loop 0 p0 dt = Inr p0" by simp
  have l1: "loop 1 p0 dt = Inr p1" using s1 by simp
  have l2: "loop 2 p0 dt = Inr p2" using s1 s2 by (simp add: numeral_2_eq_2)
  have l3: "loop 3 p0 dt = Inr p3" using s1 s2 s3 by (simp add: numeral_3_eq_3)
  have l4: "loop 4 p0 dt = Inr p4" using s1 s2 s3 s4 by (simp add: eval_nat_numeral)
  have r0: "radius p0 = 1" by (simp add: radius_def p0_def free_fall_def)
  have r1: "radius p1 = 1" by (simp add: radius_def p1_def)
  have r2: "radius p2 = 1 - a" using a_small by (simp add: radius_def p2_def)
  have r3: "radius p3 = 1 - 3 * a" using a_small by (simp add: radius_def p3_def)
  have r4: "radius p4 = 1 - 5 * a - c" using a_small c_small by (simp add: radius_def p4_def)
  show ?thesis
    unfolding radius_after_def p0_def [symmetric] l0 l1 l2 l3 l4
    using a_pos c_pos by (simp add: r0 r1 r2 r3 r4)
qed

subsection \<open>The mass\<close>

lemma single_step_mass: "m (planet_after (single_step p dt)) = m p"
  by (simp add: single_step_def Let_def)

lemma loop_mass: "m (planet_after (loop k p dt)) = m p"
proof (induction k arbitrary: p)
  case 0
  show ?case by simp
next
  case (Suc k)
  show ?case
  proof (cases "single_step p dt")
    case (Inl e)
    then show ?thesis using single_step_mass [of p dt] by simp
  next
    case (Inr p')
    then show ?thesis using single_step_mass [of p dt] Suc.IH [of p'] by simp
  qed
qed

text \<open>
  Claim C10. Neither \<open>single_step\<close> nor \<open>propagate\<close> writes the mass: for every planet,
  every \<open>dt\<close>, every time span and every step count, the mass after the call, whether
  it returned or raised, is the mass before it.
\<close>

theorem mass_unchanged:
  "m (planet_after (single_step p dt)) = m p \<and>
   m (planet_after (propagate p time_span num_steps)) = m p"
  by (simp add: single_step_mass propagate_def loop_mass Let_def)

end
